theory Spec2Isabelle
  imports Main "HOL-Library.Word"
begin

section \<open>Image analyzer: a shallow embedding of app.py\<close>

text \<open>
  The program is a Streamlit script with three functions besides \<open>main\<close>:
  \<open>log_activity\<close>, \<open>encode_image_to_base64\<close> and \<open>analyze_image_and_text\<close>.
  Its effects are the lines handed to the logger and the requests sent through the
  Groq client; both are events of one trace, the \<open>world\<close>, that every function takes
  and returns extended. The collaborators the script calls (Pillow, the Groq client) are
  parameters of the model, collected in the record \<open>env\<close>; a Python exception raised
  by one of them is the left injection of a sum.
\<close>

subsection \<open>Data\<close>

type_synonym byte = "8 word"

text \<open>An instance of a subclass of Python's \<open>Exception\<close>, with the text \<open>str(e)\<close> gives.\<close>

datatype exception = Exception string

text \<open>A Pillow image: its \<open>mode\<close> attribute and its pixel data.\<close>

record image =
  mode :: string
  raw :: "byte list"

text \<open>The keyword arguments of \<open>client.chat.completions.create\<close>.\<close>

datatype content_part = Text string | Image_url string

record message_param =
  role :: string
  parts :: "content_part list"

record request =
  model :: string
  messages :: "message_param list"
  temperature :: int
  max_tokens :: int
  top_p :: int
  stream :: bool
  stop :: "string option"

text \<open>The part of the response that is read: \<open>completion.choices[0].message.content\<close>,
  where \<open>content\<close> is an optional string.\<close>

record chat_message =
  content :: "string option"

record choice =
  message :: chat_message

record completion =
  choices :: "choice list"

text \<open>
  The events, in the order they happen: a record handed to the logger (\<open>logger.info\<close>
  or \<open>logger.error\<close> with the formatted message) and a request sent through the client.
\<close>

datatype level = INFO | ERROR

datatype event = Log level string | Call request

type_synonym world = "event list"

text \<open>
  The collaborators: \<open>Image.open(file)\<close>, \<open>st.image(image, ...)\<close>, which loads the
  pixels of the lazily opened image and can raise on them, \<open>image.convert('RGB')\<close>,
  \<open>image.save(buffered, format="JPEG")\<close> followed by \<open>buffered.getvalue()\<close>, and
  \<open>client.chat.completions.create(...)\<close>.
\<close>

record env =
  image_open :: "byte list \<Rightarrow> exception + image"
  st_image :: "image \<Rightarrow> exception + unit"
  convert_RGB :: "image \<Rightarrow> exception + image"
  save_JPEG :: "image \<Rightarrow> exception + byte list"
  create :: "request \<Rightarrow> exception + completion"

subsection \<open>base64.b64encode(...).decode()\<close>

definition b64_alphabet :: string where
  "b64_alphabet = ''ABCDEFGHIJKLMNOPQRSTUVWXYZabcdefghijklmnopqrstuvwxyz0123456789+/''"

definition b64_char :: "nat \<Rightarrow> char" where
  "b64_char n = b64_alphabet ! (n mod 64)"

fun b64encode :: "byte list \<Rightarrow> string" where
  "b64encode (a # b # c # rest) =
     (let n = unat a * 65536 + unat b * 256 + unat c
      in [b64_char (n div 262144), b64_char (n div 4096), b64_char (n div 64), b64_char n]
         @ b64encode rest)"
| "b64encode [a, b] =
     (let n = unat a * 65536 + unat b * 256
      in [b64_char (n div 262144), b64_char (n div 4096), b64_char (n div 64), CHR ''=''])"
| "b64encode [a] =
     (let n = unat a * 65536
      in [b64_char (n div 262144), b64_char (n div 4096), CHR ''='', CHR ''=''])"
| "b64encode [] = []"

subsection \<open>log_activity\<close>

text \<open>The f-string \<open>User '{user_name}' - {activity}: {status_str}\<close>.\<close>

definition activity_line :: "string \<Rightarrow> string \<Rightarrow> bool \<Rightarrow> string" where
  "activity_line user_name activity status =
     (let status_str = (if status then ''success'' else ''failed'')
      in ''User '' @ [CHR 0x27] @ user_name @ [CHR 0x27] @ '' - '' @ activity @ '': '' @ status_str)"

definition log_activity :: "string \<Rightarrow> string \<Rightarrow> bool \<Rightarrow> world \<Rightarrow> world" where
  "log_activity user_name activity status w =
     w @ [Log INFO (activity_line user_name activity status)]"

subsection \<open>encode_image_to_base64\<close>

text \<open>
  The conversion of an RGBA image stands before the \<open>try\<close>, so an exception of
  \<open>convert\<close> leaves the function; an exception of \<open>save\<close> is caught, logged with
  \<open>logger.error\<close> and turned into \<open>None\<close>.
\<close>

definition encode_image_to_base64 :: "env \<Rightarrow> image \<Rightarrow> world \<Rightarrow> world \<times> (exception + string option)" where
  "encode_image_to_base64 env img w =
     (case (if mode img = ''RGBA'' then convert_RGB env img else Inr img) of
        Inl e \<Rightarrow> (w, Inl e)
      | Inr img' \<Rightarrow>
          (case save_JPEG env img' of
             Inr buffered \<Rightarrow> (w, Inr (Some (''data:image/jpeg;base64,'' @ b64encode buffered)))
           | Inl (Exception msg) \<Rightarrow>
               (w @ [Log ERROR (''Error encoding image for user: '' @ msg)], Inr None)))"

subsection \<open>analyze_image_and_text\<close>

definition chat_request :: "string \<Rightarrow> string \<Rightarrow> request" where
  "chat_request user_text image_base64 =
     \<lparr>model = ''llama-3.2-11b-vision-preview'',
      messages = [\<lparr>role = ''user'', parts = [Text user_text, Image_url image_base64]\<rparr>],
      temperature = 1,
      max_tokens = 1024,
      top_p = 1,
      stream = False,
      stop = None\<rparr>"

text \<open>
  The whole body is one \<open>try\<close> whose handler logs a failed "Image analysis" and returns
  \<open>None\<close>. It is entered by an exception of the encoder, by the \<open>raise\<close> after the
  encoder returned \<open>None\<close>, by an exception of the client and by the \<open>IndexError\<close> of
  \<open>choices[0]\<close> on an empty list.
\<close>

definition analyze_image_and_text ::
    "env \<Rightarrow> string \<Rightarrow> string \<Rightarrow> image \<Rightarrow> world \<Rightarrow> world \<times> (exception + string option)" where
  "analyze_image_and_text env user_name user_text img w =
     (case encode_image_to_base64 env img w of
        (w1, Inl e) \<Rightarrow> (log_activity user_name ''Image analysis'' False w1, Inr None)
      | (w1, Inr None) \<Rightarrow> (log_activity user_name ''Image analysis'' False w1, Inr None)
      | (w1, Inr (Some image_base64)) \<Rightarrow>
          (let w2 = log_activity user_name ''API call'' True w1;
               req = chat_request user_text image_base64;
               w3 = w2 @ [Call req]
           in case create env req of
                Inl e \<Rightarrow> (log_activity user_name ''Image analysis'' False w3, Inr None)
              | Inr completion \<Rightarrow>
                  (case choices completion of
                     [] \<Rightarrow> (log_activity user_name ''Image analysis'' False w3, Inr None)
                   | c # _ \<Rightarrow>
                       (log_activity user_name ''Image analysis'' True w3,
                        Inr (content (message c))))))"

subsection \<open>main\<close>

text \<open>
  \<open>st.session_state\<close> holds one key. \<open>None\<close> is the key missing, \<open>Some None\<close> the key
  bound to Python's \<open>None\<close>, \<open>Some (Some n)\<close> the key bound to the name \<open>n\<close>.
\<close>

record session_state =
  user_name :: "string option option"

text \<open>
  The value \<open>st.session_state.user_name\<close> has once lines 107-108 have bound a missing
  key to \<open>None\<close>.
\<close>

definition current_user :: "session_state \<Rightarrow> string option" where
  "current_user ss = (case user_name ss of None \<Rightarrow> None | Some v \<Rightarrow> v)"

text \<open>What the widgets return in one run of the script.\<close>

record inputs =
  name_entered :: string
  enter_clicked :: bool
  text_entered :: string
  uploaded_file :: "byte list option"
  analyze_clicked :: bool
  logout_clicked :: bool

text \<open>
  What one run puts on the page, in the order of the calls. The two \<open>st.markdown\<close> calls
  write fixed HTML (the style block and the footer), kept as constructors without their text.
\<close>

datatype element =
    Markdown_style
  | Title string
  | Subheader string
  | Text_input string
  | Button string
  | Warning string
  | File_uploader string
  | Image_view image string
  | Spinner string
  | Success string
  | Write string
  | Error string
  | Info string
  | Sidebar_button string
  | Markdown_footer

text \<open>A run ends at a \<open>return\<close> or at the end of \<open>main\<close>, or \<open>st.rerun()\<close> stops it.\<close>

datatype control = Finished | Rerun

record run_result =
  session :: session_state
  world :: world
  page :: "element list"
  control :: control

text \<open>The titles end in an emoji, written as its UTF-8 bytes.\<close>

definition welcome_title :: string where
  "welcome_title = ''Welcome to Image Analyzer! '' @ [CHR 0xF0, CHR 0x9F, CHR 0x91, CHR 0x8B]"

definition hello_title :: "string \<Rightarrow> string" where
  "hello_title name = ''Hello, '' @ name @ ''! '' @ [CHR 0xF0, CHR 0x9F, CHR 0x8E, CHR 0x89]"

definition analysis_error_text :: string where
  "analysis_error_text =
     ''Sorry, there was an error analyzing the image. Please try again later or try another image.''"

text \<open>The handler of the \<open>try\<close> in \<open>main\<close>: the banner, then the log entry.\<close>

definition image_processing_failed :: "string \<Rightarrow> world \<times> element list \<Rightarrow> world \<times> element list" where
  "image_processing_failed name st =
     (log_activity name ''Image processing'' False (fst st),
      snd st @ [Error ''Error processing image. Please try another image.''])"

text \<open>
  The \<open>try\<close> block of \<open>main\<close>, entered when a file is uploaded: open and show the image,
  log the upload, render the button and, when it was clicked, analyze. An exception of
  \<open>Image.open\<close> or of \<open>st.image\<close> goes to the handler before anything is shown or
  logged. \<open>if response\<close> is Python's truth value: \<open>None\<close> and the empty string are
  false.
\<close>

definition process_upload ::
    "env \<Rightarrow> string \<Rightarrow> string \<Rightarrow> byte list \<Rightarrow> bool \<Rightarrow> world \<times> element list \<Rightarrow> world \<times> element list" where
  "process_upload env name user_text file clicked st =
     (case image_open env file of
        Inl e \<Rightarrow> image_processing_failed name st
      | Inr img \<Rightarrow>
          (case st_image env img of
             Inl e \<Rightarrow> image_processing_failed name st
           | Inr shown \<Rightarrow>
               (let page1 = snd st @ [Image_view img ''Uploaded Image''];
                    w1 = log_activity name ''Image upload'' True (fst st);
                    page2 = page1 @ [Button ''Analyze'']
                in if clicked then
                     (let page3 = page2 @ [Spinner ''Analyzing the image...'']
                      in case analyze_image_and_text env name user_text img w1 of
                           (w2, Inl e) \<Rightarrow> image_processing_failed name (w2, page3)
                         | (w2, Inr None) \<Rightarrow> (w2, page3 @ [Error analysis_error_text])
                         | (w2, Inr (Some response)) \<Rightarrow>
                             if response \<noteq> []
                             then (w2, page3 @ [Success ''Analysis complete!'', Write response])
                             else (w2, page3 @ [Error analysis_error_text]))
                   else (w1, page2))))"

definition main :: "env \<Rightarrow> inputs \<Rightarrow> session_state \<Rightarrow> world \<Rightarrow> run_result" where
  "main env inp ss0 w =
     (let page0 = [Markdown_style];
          current = current_user ss0;
          ss = ss0\<lparr>user_name := Some current\<rparr>
      in case current of
           None \<Rightarrow>
             (let page1 = page0 @ [Title welcome_title, Text_input ''Please enter your name:'',
                                   Button ''Enter'']
              in if enter_clicked inp then
                   (if name_entered inp \<noteq> [] then
                      \<lparr>session = ss\<lparr>user_name := Some (Some (name_entered inp))\<rparr>,
                       world = log_activity (name_entered inp) ''Login'' True w,
                       page = page1, control = Rerun\<rparr>
                    else
                      \<lparr>session = ss,
                       world = log_activity ''anonymous'' ''Login'' False w,
                       page = page1 @ [Warning ''Please enter your name to continue.''],
                       control = Finished\<rparr>)
                 else \<lparr>session = ss, world = w, page = page1, control = Finished\<rparr>)
         | Some name \<Rightarrow>
             (let page1 = page0 @ [Title (hello_title name), Subheader ''Image Analyzer'',
                                   Text_input ''Enter text'', File_uploader ''Choose an image...''];
                  user_text = (if text_entered inp = [] then ''Describe the image''
                               else text_entered inp);
                  st = (case uploaded_file inp of
                          Some file \<Rightarrow>
                            process_upload env name user_text file (analyze_clicked inp) (w, page1)
                        | None \<Rightarrow> (w, page1 @ [Info ''Please upload an image to analyze.'']));
                  page2 = snd st @ [Sidebar_button ''Logout'']
              in if logout_clicked inp then
                   \<lparr>session = ss\<lparr>user_name := Some None\<rparr>,
                    world = log_activity name ''Logout'' True (fst st),
                    page = page2, control = Rerun\<rparr>
                 else
                   \<lparr>session = ss, world = fst st, page = page2 @ [Markdown_footer],
                    control = Finished\<rparr>))"

subsection \<open>Running the script\<close>

text \<open>
  Streamlit runs the script from the top at every user action, and \<open>st.rerun()\<close> starts
  a further run at once; in that run no button is clicked and the widgets of the view
  that appears hold their defaults.
\<close>

definition idle :: inputs where
  "idle = \<lparr>name_entered = [], enter_clicked = False, text_entered = [],
           uploaded_file = None, analyze_clicked = False, logout_clicked = False\<rparr>"

definition script_run :: "env \<Rightarrow> inputs \<Rightarrow> session_state \<Rightarrow> world \<Rightarrow> run_result" where
  "script_run env inp ss w =
     (let r = main env inp ss w
      in if control r = Rerun then main env idle (session r) (world r) else r)"

fun interact :: "env \<Rightarrow> inputs list \<Rightarrow> run_result \<Rightarrow> run_result" where
  "interact env [] r = r"
| "interact env (inp # rest) r = interact env rest (script_run env inp (session r) (world r))"

text \<open>A browser session starts with an empty session state, log and call trace.\<close>

definition fresh :: run_result where
  "fresh = \<lparr>session = \<lparr>user_name = None\<rparr>, world = [], page = [], control = Finished\<rparr>"

subsection \<open>Reading the trace\<close>

text \<open>The messages of the activity log (the \<open>logger.info\<close> records) and the requests sent.\<close>

fun activity_entries :: "world \<Rightarrow> string list" where
  "activity_entries [] = []"
| "activity_entries (Log INFO m # es) = m # activity_entries es"
| "activity_entries (Log ERROR m # es) = activity_entries es"
| "activity_entries (Call r # es) = activity_entries es"

fun calls_of :: "world \<Rightarrow> request list" where
  "calls_of [] = []"
| "calls_of (Call r # es) = r # calls_of es"
| "calls_of (Log l m # es) = calls_of es"

text \<open>
  The ways into the handler of \<open>analyze_image_and_text\<close>: the encoder raises or returns
  \<open>None\<close>, the client raises, or the completion has no choice.
\<close>

definition analysis_failed :: "env \<Rightarrow> string \<Rightarrow> image \<Rightarrow> bool" where
  "analysis_failed env user_text img =
     (case snd (encode_image_to_base64 env img []) of
        Inr (Some image_base64) \<Rightarrow>
          (case create env (chat_request user_text image_base64) of
             Inl e \<Rightarrow> True
           | Inr completion \<Rightarrow> choices completion = [])
      | _ \<Rightarrow> True)"

text \<open>The call through the client fails: it raises, or its completion has no choice.\<close>

definition client_failed :: "env \<Rightarrow> request \<Rightarrow> bool" where
  "client_failed env req =
     (case create env req of Inl e \<Rightarrow> True | Inr completion \<Rightarrow> choices completion = [])"

subsection \<open>Reading the encoder's output back\<close>







subsection \<open>Test doubles\<close>

text \<open>
  Collaborators for running the model on concrete inputs. They are not Pillow: the file
  format is a toy container (start marker, number of channels, the samples, end marker)
  in place of JPEG, and only the modes L, LA, RGB, RGBA and CMYK are known. They behave
  like the collaborators where the claims need it: the converter drops the alpha band,
  the writer refuses a mode with alpha with Pillow's message, the opener reads back what
  the writer wrote and refuses anything else, and showing an image succeeds. The client's
  answer is a parameter.
\<close>

fun drop_alpha :: "byte list \<Rightarrow> byte list" where
  "drop_alpha (r # g # b # a # rest) = r # g # b # drop_alpha rest"
| "drop_alpha _ = []"

fun grey_alpha_to_rgb :: "byte list \<Rightarrow> byte list" where
  "grey_alpha_to_rgb (l # a # rest) = l # l # l # grey_alpha_to_rgb rest"
| "grey_alpha_to_rgb _ = []"

definition toy_convert_RGB :: "image \<Rightarrow> exception + image" where
  "toy_convert_RGB img =
     (if mode img = ''RGBA'' then Inr \<lparr>mode = ''RGB'', raw = drop_alpha (raw img)\<rparr>
      else if mode img = ''LA'' then Inr \<lparr>mode = ''RGB'', raw = grey_alpha_to_rgb (raw img)\<rparr>
      else if mode img = ''RGB'' then Inr img
      else Inl (Exception ''conversion not supported''))"

definition toy_channels :: "string \<Rightarrow> byte option" where
  "toy_channels m =
     (if m = ''L'' then Some 1 else if m = ''RGB'' then Some 3
      else if m = ''CMYK'' then Some 4 else None)"

definition toy_mode :: "byte \<Rightarrow> string option" where
  "toy_mode n =
     (if n = 1 then Some ''L'' else if n = 3 then Some ''RGB''
      else if n = 4 then Some ''CMYK'' else None)"

definition toy_save :: "image \<Rightarrow> exception + byte list" where
  "toy_save img =
     (case toy_channels (mode img) of
        Some n \<Rightarrow> Inr ([0xFF, 0xD8, n] @ raw img @ [0xFF, 0xD9])
      | None \<Rightarrow> Inl (Exception (''cannot write mode '' @ mode img @ '' as JPEG'')))"

definition toy_open :: "byte list \<Rightarrow> exception + image" where
  "toy_open file =
     (case file of
        a # b # n # rest \<Rightarrow>
          (case toy_mode n of
             Some m \<Rightarrow>
               if a = 0xFF \<and> b = 0xD8 \<and> 2 \<le> length rest
                  \<and> drop (length rest - 2) rest = [0xFF, 0xD9]
               then Inr \<lparr>mode = m, raw = take (length rest - 2) rest\<rparr>
               else Inl (Exception ''cannot identify image file'')
           | None \<Rightarrow> Inl (Exception ''cannot identify image file''))
      | _ \<Rightarrow> Inl (Exception ''cannot identify image file''))"

definition mock_env :: "(request \<Rightarrow> exception + completion) \<Rightarrow> env" where
  "mock_env api =
     \<lparr>image_open = toy_open,
      st_image = (\<lambda>img. Inr ()),
      convert_RGB = toy_convert_RGB,
      save_JPEG = toy_save,
      create = api\<rparr>"

definition reply :: "string option \<Rightarrow> request \<Rightarrow> exception + completion" where
  "reply c req = Inr \<lparr>choices = [\<lparr>message = \<lparr>content = c\<rparr>\<rparr>]\<rparr>"

definition refuse :: "request \<Rightarrow> exception + completion" where
  "refuse req = Inl (Exception ''Connection error.'')"

definition rgb_image :: image where
  "rgb_image = \<lparr>mode = ''RGB'', raw = [1, 2, 3]\<rparr>"


definition la_image :: image where
  "la_image = \<lparr>mode = ''LA'', raw = [1, 255]\<rparr>"

text \<open>The uploaded file, in the doubles' container: one pixel of three channels.\<close>

definition jpeg_file :: "byte list" where
  "jpeg_file = [0xFF, 0xD8, 3, 200, 30, 30, 0xFF, 0xD9]"

text \<open>
  Bob's session: he enters his name, uploads the file, and clicks "Analyze" with the
  prompt left empty.
\<close>

definition bob_session :: "inputs list" where
  "bob_session =
     [idle\<lparr>name_entered := ''Bob'', enter_clicked := True\<rparr>,
      idle\<lparr>uploaded_file := Some jpeg_file\<rparr>,
      idle\<lparr>uploaded_file := Some jpeg_file, analyze_clicked := True\<rparr>]"

section \<open>Lemmas about the functions\<close>

subsection \<open>Base64: decoding what was encoded\<close>




















subsection \<open>The encoder\<close>

lemma encode_shape:
  "(\<exists>e. encode_image_to_base64 env img w = (w, Inl e))
   \<or> (\<exists>msg. encode_image_to_base64 env img w =
          (w @ [Log ERROR (''Error encoding image for user: '' @ msg)], Inr None))
   \<or> (\<exists>buffered. encode_image_to_base64 env img w =
          (w, Inr (Some (''data:image/jpeg;base64,'' @ b64encode buffered))))"
  unfolding encode_image_to_base64_def
  by (auto split: sum.splits exception.splits)

lemma encode_cases:
  obtains (raised) e where "encode_image_to_base64 env img w = (w, Inl e)"
  | (caught) msg where
      "encode_image_to_base64 env img w =
         (w @ [Log ERROR (''Error encoding image for user: '' @ msg)], Inr None)"
  | (encoded) buffered where
      "encode_image_to_base64 env img w =
         (w, Inr (Some (''data:image/jpeg;base64,'' @ b64encode buffered)))"
  using encode_shape [of env img w] by blast

text \<open>What the encoder returns does not depend on the trace so far.\<close>

lemma encode_result_any_world:
  "snd (encode_image_to_base64 env img w) = snd (encode_image_to_base64 env img [])"
  unfolding encode_image_to_base64_def
  by (simp split: sum.splits exception.splits)

lemma encode_success_world:
  assumes "snd (encode_image_to_base64 env img w) = Inr (Some uri)"
  shows "encode_image_to_base64 env img w = (w, Inr (Some uri))"
  using assms by (cases rule: encode_cases [of env img w]) auto

lemma encode_ignores_client:
  "encode_image_to_base64 (env\<lparr>create := api\<rparr>) img w = encode_image_to_base64 env img w"
  by (simp add: encode_image_to_base64_def cong: sum.case_cong)

subsection \<open>The trace\<close>

lemma activity_entries_append:
  "activity_entries (xs @ ys) = activity_entries xs @ activity_entries ys"
  by (induction xs rule: activity_entries.induct) simp_all

lemma calls_of_append: "calls_of (xs @ ys) = calls_of xs @ calls_of ys"
  by (induction xs rule: calls_of.induct) simp_all

lemma activity_line_activity:
  "activity_line u a s = activity_line u b t \<longleftrightarrow>
     a @ '': '' @ (if s then ''success'' else ''failed'')
       = b @ '': '' @ (if t then ''success'' else ''failed'')"
  by (simp add: activity_line_def)

subsection \<open>The analyzer\<close>

lemma analysis_failed_world:
  "analysis_failed env t img =
     (case snd (encode_image_to_base64 env img w) of
        Inr (Some image_base64) \<Rightarrow>
          (case create env (chat_request t image_base64) of
             Inl e \<Rightarrow> True
           | Inr completion \<Rightarrow> choices completion = [])
      | _ \<Rightarrow> True)"
  unfolding analysis_failed_def by (subst (2) encode_result_any_world) (rule refl)

text \<open>Once the image is encoded, the client's answer decides the rest.\<close>

lemma analyze_encoded:
  assumes "snd (encode_image_to_base64 env img w) = Inr (Some uri)"
  shows "analyze_image_and_text env u t img w =
     (case create env (chat_request t uri) of
        Inl e \<Rightarrow> (w @ [Log INFO (activity_line u ''API call'' True), Call (chat_request t uri),
                       Log INFO (activity_line u ''Image analysis'' False)], Inr None)
      | Inr completion \<Rightarrow>
          (case choices completion of
             [] \<Rightarrow> (w @ [Log INFO (activity_line u ''API call'' True), Call (chat_request t uri),
                         Log INFO (activity_line u ''Image analysis'' False)], Inr None)
           | c # _ \<Rightarrow> (w @ [Log INFO (activity_line u ''API call'' True), Call (chat_request t uri),
                            Log INFO (activity_line u ''Image analysis'' True)],
                       Inr (content (message c)))))"
  using encode_success_world [OF assms]
  by (simp add: analyze_image_and_text_def log_activity_def Let_def split: sum.splits list.splits)

subsection \<open>The upload block of main\<close>

lemma process_upload_analyzed:
  assumes "image_open env file = Inr img"
    and "st_image env img = Inr ()"
    and "analyze_image_and_text env name t img
           (w @ [Log INFO (activity_line name ''Image upload'' True)]) = (w', Inr r)"
  shows "process_upload env name t file True (w, pg) =
           (w', pg @ [Image_view img ''Uploaded Image'', Button ''Analyze'',
                      Spinner ''Analyzing the image...'']
                   @ (case r of
                        None \<Rightarrow> [Error analysis_error_text]
                      | Some response \<Rightarrow>
                          if response \<noteq> [] then [Success ''Analysis complete!'', Write response]
                          else [Error analysis_error_text]))"
  using assms
  by (simp add: process_upload_def Let_def log_activity_def split: option.splits)

text \<open>An image that opens but cannot be shown ends in the handler, like one that does not open.\<close>

lemma process_upload_not_shown:
  assumes "image_open env file = Inr img" and "st_image env img = Inl e"
  shows "process_upload env name t file clicked (w, pg) =
           (w @ [Log INFO (activity_line name ''Image processing'' False)],
            pg @ [Error ''Error processing image. Please try another image.''])"
  using assms
  by (simp add: process_upload_def image_processing_failed_def log_activity_def)

text \<open>
  After a whole run, reruns included, the uploader is on the page only while a name is
  in the session.
\<close>

lemma analyzer_view_needs_user:
  assumes "File_uploader l \<in> set (page (script_run env inp ss w))"
  shows "current_user (session (script_run env inp ss w)) \<noteq> None"
  using assms
  by (cases "current_user ss")
     (auto simp add: script_run_def main_def Let_def current_user_def idle_def
           split: if_splits)

subsection \<open>The test doubles\<close>

lemma create_mock: "create (mock_env api) = api"
  by (simp add: mock_env_def)

lemma st_image_mock: "st_image (mock_env api) img = Inr ()"
  by (simp add: mock_env_def)

lemma encode_rgb_mock:
  "encode_image_to_base64 (mock_env api) rgb_image w =
     (w, Inr (Some ''data:image/jpeg;base64,/9gDAQID/9k=''))"
  by (simp add: encode_image_to_base64_def mock_env_def toy_save_def toy_channels_def
        rgb_image_def b64_char_def b64_alphabet_def)

lemma encode_rgb_mock_snd:
  "snd (encode_image_to_base64 (mock_env api) rgb_image w) =
     Inr (Some ''data:image/jpeg;base64,/9gDAQID/9k='')"
  by (simp add: encode_rgb_mock)

lemma encode_la_mock:
  "encode_image_to_base64 (mock_env api) la_image w =
     (w @ [Log ERROR ''Error encoding image for user: cannot write mode LA as JPEG''], Inr None)"
  by (simp add: encode_image_to_base64_def mock_env_def toy_save_def toy_channels_def
        la_image_def)

lemma analyze_rgb_mock_reply:
  "analyze_image_and_text (mock_env (reply c)) u t rgb_image w =
     (w @ [Log INFO (activity_line u ''API call'' True),
           Call (chat_request t ''data:image/jpeg;base64,/9gDAQID/9k=''),
           Log INFO (activity_line u ''Image analysis'' True)], Inr c)"
  by (simp add: analyze_encoded [OF encode_rgb_mock_snd] create_mock reply_def)

lemma image_open_mock_jpeg:
  "image_open (mock_env api) jpeg_file = Inr \<lparr>mode = ''RGB'', raw = [200, 30, 30]\<rparr>"
  by (simp add: mock_env_def toy_open_def toy_mode_def jpeg_file_def)

lemma encode_jpeg_mock:
  "encode_image_to_base64 (mock_env api) \<lparr>mode = ''RGB'', raw = [200, 30, 30]\<rparr> w =
     (w, Inr (Some ''data:image/jpeg;base64,/9gDyB4e/9k=''))"
  by (simp add: encode_image_to_base64_def mock_env_def toy_save_def toy_channels_def
        b64_char_def b64_alphabet_def)

lemma analyze_jpeg_mock_reply:
  "analyze_image_and_text (mock_env (reply c)) u t \<lparr>mode = ''RGB'', raw = [200, 30, 30]\<rparr> w =
     (w @ [Log INFO (activity_line u ''API call'' True),
           Call (chat_request t ''data:image/jpeg;base64,/9gDyB4e/9k=''),
           Log INFO (activity_line u ''Image analysis'' True)], Inr c)"
proof -
  have "snd (encode_image_to_base64 (mock_env (reply c)) \<lparr>mode = ''RGB'', raw = [200, 30, 30]\<rparr> w)
          = Inr (Some ''data:image/jpeg;base64,/9gDyB4e/9k='')"
    by (simp add: encode_jpeg_mock)
  from analyze_encoded [OF this] show ?thesis
    by (simp add: create_mock reply_def)
qed

lemma bob_session_run:
  "interact (mock_env (reply (Some ''A red apple on a table.''))) bob_session fresh =
     \<lparr>session = \<lparr>user_name = Some (Some ''Bob'')\<rparr>,
      world = [Log INFO (activity_line ''Bob'' ''Login'' True),
               Log INFO (activity_line ''Bob'' ''Image upload'' True),
               Log INFO (activity_line ''Bob'' ''Image upload'' True),
               Log INFO (activity_line ''Bob'' ''API call'' True),
               Call (chat_request ''Describe the image'' ''data:image/jpeg;base64,/9gDyB4e/9k=''),
               Log INFO (activity_line ''Bob'' ''Image analysis'' True)],
      page = [Markdown_style, Title (hello_title ''Bob''), Subheader ''Image Analyzer'',
              Text_input ''Enter text'', File_uploader ''Choose an image...'',
              Image_view \<lparr>mode = ''RGB'', raw = [200, 30, 30]\<rparr> ''Uploaded Image'',
              Button ''Analyze'', Spinner ''Analyzing the image...'',
              Success ''Analysis complete!'', Write ''A red apple on a table.'',
              Sidebar_button ''Logout'', Markdown_footer],
      control = Finished\<rparr>"
  by (simp add: bob_session_def fresh_def script_run_def main_def process_upload_def Let_def
        idle_def current_user_def log_activity_def image_open_mock_jpeg st_image_mock
        analyze_jpeg_mock_reply)

section \<open>The claims\<close>

subsection \<open>C1: the name gate\<close>

text \<open>
  C1, as amended. The gate tests \<open>if user_name:\<close>, the truth value of the string as it
  was typed; nothing trims it. For the empty name, submitting never establishes a
  session (\<open>user_name\<close> stays \<open>None\<close>) and logs exactly one entry, the failed "Login" of
  the actor "anonymous".
\<close>

theorem empty_name_rejected:
  assumes "current_user ss = None" and "enter_clicked inp" and "name_entered inp = []"
  shows "main env inp ss w =
           \<lparr>session = ss\<lparr>user_name := Some None\<rparr>,
            world = w @ [Log INFO (activity_line ''anonymous'' ''Login'' False)],
            page = [Markdown_style, Title welcome_title, Text_input ''Please enter your name:'',
                    Button ''Enter'', Warning ''Please enter your name to continue.''],
            control = Finished\<rparr>
         \<and> current_user (session (main env inp ss w)) = None"
  using assms by (simp add: main_def Let_def log_activity_def current_user_def)

theorem empty_name_rejected_witness:
  "current_user \<lparr>user_name = None\<rparr> = None \<and> enter_clicked (idle\<lparr>enter_clicked := True\<rparr>)
   \<and> name_entered (idle\<lparr>enter_clicked := True\<rparr>) = []
   \<and> main (mock_env refuse) (idle\<lparr>enter_clicked := True\<rparr>) \<lparr>user_name = None\<rparr> [] =
           \<lparr>session = \<lparr>user_name = Some None\<rparr>,
            world = [Log INFO (activity_line ''anonymous'' ''Login'' False)],
            page = [Markdown_style, Title welcome_title, Text_input ''Please enter your name:'',
                    Button ''Enter'', Warning ''Please enter your name to continue.''],
            control = Finished\<rparr>"
proof -
  have h1: "current_user \<lparr>user_name = None\<rparr> = None" by (simp add: current_user_def)
  have h2: "enter_clicked (idle\<lparr>enter_clicked := True\<rparr>)" by simp
  have h3: "name_entered (idle\<lparr>enter_clicked := True\<rparr>) = []" by (simp add: idle_def)
  from empty_name_rejected [OF h1 h2 h3, of "mock_env refuse" "[]"] h1 h2 h3
  show ?thesis by simp
qed

text \<open>
  C1 as stated fails for a name of whitespace only: the name of one space is accepted,
  the session holds it, and the entry logged is a successful "Login" of that name.
\<close>

theorem whitespace_name_counterexample:
  "current_user (session (main (mock_env refuse)
                                (idle\<lparr>name_entered := '' '', enter_clicked := True\<rparr>)
                                \<lparr>user_name = None\<rparr> [])) = Some '' ''
   \<and> world (main (mock_env refuse) (idle\<lparr>name_entered := '' '', enter_clicked := True\<rparr>)
                  \<lparr>user_name = None\<rparr> []) = [Log INFO (activity_line '' '' ''Login'' True)]"
  by (simp add: main_def Let_def log_activity_def current_user_def idle_def)

subsection \<open>C2: no exception leaves the analyzer\<close>

text \<open>
  C2. For every collaborator, actor, prompt, image and trace, the analyzer returns a value
  (a string or \<open>None\<close>) and never an exception, and the last event is the "Image analysis"
  entry. When something failed inside (the encoder raised or returned \<open>None\<close>, the client
  raised, the completion had no choice), the value is \<open>None\<close> and that entry is a failed
  one.
\<close>

theorem analyze_never_raises:
  "\<exists>d r. analyze_image_and_text env u t img w = (w @ d, Inr r)
     \<and> last (w @ d) = Log INFO (activity_line u ''Image analysis'' (\<not> analysis_failed env t img))
     \<and> (analysis_failed env t img \<longrightarrow> r = None)"
proof (cases rule: encode_cases [of env img w])
  case (raised e)
  then show ?thesis
    by (simp add: analyze_image_and_text_def log_activity_def
          analysis_failed_world [of env t img w])
next
  case (caught msg)
  then show ?thesis
    by (simp add: analyze_image_and_text_def log_activity_def
          analysis_failed_world [of env t img w])
next
  case (encoded buffered)
  then show ?thesis
    by (simp add: analyze_image_and_text_def log_activity_def
          analysis_failed_world [of env t img w] Let_def split: sum.splits list.splits)
qed

theorem analyze_never_raises_witness:
  "analysis_failed (mock_env refuse) ''What is this?'' rgb_image
   \<and> (\<exists>d. analyze_image_and_text (mock_env refuse) ''Bob'' ''What is this?'' rgb_image []
             = (d, Inr None)
          \<and> last d = Log INFO (activity_line ''Bob'' ''Image analysis'' False))"
proof -
  have h: "analysis_failed (mock_env refuse) ''What is this?'' rgb_image"
    by (simp add: analysis_failed_def encode_rgb_mock) (simp add: mock_env_def refuse_def)
  with analyze_never_raises [of "mock_env refuse" "''Bob''" "''What is this?''" rgb_image "[]"]
  show ?thesis by auto
qed

subsection \<open>C3: images with an alpha channel\<close>




subsection \<open>C4: the default prompt\<close>

text \<open>
  C4, as amended. The default is substituted in \<open>main\<close>, before the analyzer is called: a
  run of the script with the prompt field empty is the run with "Describe the image"
  typed into it (same session, same trace of log entries and requests, same page).
\<close>

theorem main_default_prompt:
  assumes "text_entered inp = []"
  shows "main env inp ss w = main env (inp\<lparr>text_entered := ''Describe the image''\<rparr>) ss w"
  using assms
  by (cases "current_user ss"; cases "uploaded_file inp") (simp_all add: main_def Let_def)

theorem main_default_prompt_witness:
  "text_entered (idle\<lparr>uploaded_file := Some jpeg_file, analyze_clicked := True\<rparr>) = []
   \<and> main (mock_env (reply (Some ''A cat.'')))
          (idle\<lparr>uploaded_file := Some jpeg_file, analyze_clicked := True\<rparr>)
          \<lparr>user_name = Some (Some ''Bob'')\<rparr> []
       = main (mock_env (reply (Some ''A cat.'')))
          (idle\<lparr>uploaded_file := Some jpeg_file, analyze_clicked := True,
                text_entered := ''Describe the image''\<rparr>)
          \<lparr>user_name = Some (Some ''Bob'')\<rparr> []"
proof -
  have h: "text_entered (idle\<lparr>uploaded_file := Some jpeg_file, analyze_clicked := True\<rparr>) = []"
    by (simp add: idle_def)
  from main_default_prompt [OF h] h show ?thesis by simp
qed

text \<open>
  C4 as stated fails: the analyzer itself sends the prompt it is given. Called with the
  empty string it sends a request whose text part is empty, a different request from the
  one it sends for "Describe the image".
\<close>

theorem analyze_empty_prompt_counterexample:
  "analyze_image_and_text (mock_env (reply (Some ''A cat.''))) ''Bob'' [] rgb_image []
   \<noteq> analyze_image_and_text (mock_env (reply (Some ''A cat.''))) ''Bob''
        ''Describe the image'' rgb_image []"
  by (simp add: analyze_rgb_mock_reply chat_request_def)

subsection \<open>C5: the encoder fails\<close>

text \<open>
  C5. Whenever the encoder does not return a data URI (it raises or returns \<open>None\<close>), the
  analyzer returns \<open>None\<close>, sends no request, and the activity entries it adds are exactly
  one, the failed "Image analysis"; no "API call" entry is among them.
\<close>

theorem encoder_failure_no_call:
  assumes "\<forall>uri. snd (encode_image_to_base64 env img w) \<noteq> Inr (Some uri)"
  shows "\<exists>d. analyze_image_and_text env u t img w = (w @ d, Inr None)
           \<and> calls_of d = []
           \<and> activity_entries d = [activity_line u ''Image analysis'' False]
           \<and> activity_line u ''API call'' True \<notin> set (activity_entries d)"
proof (cases rule: encode_cases [of env img w])
  case (raised e)
  then show ?thesis
    by (simp add: analyze_image_and_text_def log_activity_def activity_line_activity)
next
  case (caught msg)
  then show ?thesis
    by (simp add: analyze_image_and_text_def log_activity_def activity_line_activity)
next
  case (encoded buffered)
  with assms show ?thesis by simp
qed

theorem encoder_failure_no_call_witness:
  "(\<forall>uri. snd (encode_image_to_base64 (mock_env refuse) la_image []) \<noteq> Inr (Some uri))
   \<and> (\<exists>d. analyze_image_and_text (mock_env refuse) ''Bob'' ''What is this?'' la_image []
             = ([] @ d, Inr None)
           \<and> calls_of d = []
           \<and> activity_entries d = [activity_line ''Bob'' ''Image analysis'' False]
           \<and> activity_line ''Bob'' ''API call'' True \<notin> set (activity_entries d))"
proof -
  have h: "\<forall>uri. snd (encode_image_to_base64 (mock_env refuse) la_image []) \<noteq> Inr (Some uri)"
    by (simp add: encode_la_mock)
  from h encoder_failure_no_call [OF h, of "''Bob''" "''What is this?''"]
  show ?thesis by (rule conjI)
qed

subsection \<open>C6: the client fails\<close>

text \<open>
  C6. Whenever the image is encoded and the call through the client fails, the analyzer
  returns \<open>None\<close> and adds exactly these events, in this order: the successful "API call"
  entry, the request, the failed "Image analysis" entry. So the two activity entries are
  "API call" success and then "Image analysis" failure, and the first is logged before
  the request goes out.
\<close>

theorem client_failure_log_order:
  assumes "snd (encode_image_to_base64 env img w) = Inr (Some uri)"
    and "client_failed env (chat_request t uri)"
  shows "analyze_image_and_text env u t img w =
           (w @ [Log INFO (activity_line u ''API call'' True),
                 Call (chat_request t uri),
                 Log INFO (activity_line u ''Image analysis'' False)], Inr None)"
  using assms(2)
  by (simp add: analyze_encoded [OF assms(1)] client_failed_def split: sum.splits list.splits)

theorem client_failure_log_order_witness:
  "snd (encode_image_to_base64 (mock_env refuse) rgb_image []) =
     Inr (Some ''data:image/jpeg;base64,/9gDAQID/9k='')
   \<and> client_failed (mock_env refuse) (chat_request ''What is this?'' ''data:image/jpeg;base64,/9gDAQID/9k='')
   \<and> analyze_image_and_text (mock_env refuse) ''Bob'' ''What is this?'' rgb_image [] =
         ([] @ [Log INFO (activity_line ''Bob'' ''API call'' True),
           Call (chat_request ''What is this?'' ''data:image/jpeg;base64,/9gDAQID/9k=''),
           Log INFO (activity_line ''Bob'' ''Image analysis'' False)], Inr None)"
proof -
  have h1: "snd (encode_image_to_base64 (mock_env refuse) rgb_image []) =
              Inr (Some ''data:image/jpeg;base64,/9gDAQID/9k='')"
    by (rule encode_rgb_mock_snd)
  have h2: "client_failed (mock_env refuse)
              (chat_request ''What is this?'' ''data:image/jpeg;base64,/9gDAQID/9k='')"
    by (simp add: client_failed_def mock_env_def refuse_def)
  from h1 h2 client_failure_log_order [OF h1 h2, of "''Bob''"] show ?thesis by blast
qed

subsection \<open>C7: a successful analysis\<close>

text \<open>
  C7. Whenever the image is encoded and the client returns a completion with at least
  one choice, the analyzer sends exactly one request: the fixed model, one message of
  role "user" whose parts are the prompt text and the encoded image (a data URI with
  the JPEG header), temperature 1, at most 1024 tokens, top-p 1, no streaming, no stop
  sequence. It returns the content of the first choice and logs a successful
  "Image analysis" entry.
\<close>

theorem analyze_success:
  assumes "snd (encode_image_to_base64 env img w) = Inr (Some uri)"
    and "create env (chat_request t uri) = Inr completion"
    and "choices completion = c # cs"
  shows "analyze_image_and_text env u t img w =
           (w @ [Log INFO (activity_line u ''API call'' True),
                 Call \<lparr>model = ''llama-3.2-11b-vision-preview'',
                       messages = [\<lparr>role = ''user'', parts = [Text t, Image_url uri]\<rparr>],
                       temperature = 1, max_tokens = 1024, top_p = 1,
                       stream = False, stop = None\<rparr>,
                 Log INFO (activity_line u ''Image analysis'' True)],
            Inr (content (message c)))
         \<and> (\<exists>buffered. uri = ''data:image/jpeg;base64,'' @ b64encode buffered)"
proof -
  have enc: "encode_image_to_base64 env img w = (w, Inr (Some uri))"
    by (rule encode_success_world [OF assms(1)])
  have "\<exists>buffered. uri = ''data:image/jpeg;base64,'' @ b64encode buffered"
    using enc by (cases rule: encode_cases [of env img w]) auto
  moreover have "analyze_image_and_text env u t img w =
           (w @ [Log INFO (activity_line u ''API call'' True),
                 Call (chat_request t uri),
                 Log INFO (activity_line u ''Image analysis'' True)],
            Inr (content (message c)))"
    using assms(2,3) by (simp add: analyze_encoded [OF assms(1)])
  ultimately show ?thesis by (simp add: chat_request_def)
qed

theorem analyze_success_witness:
  "snd (encode_image_to_base64 (mock_env (reply (Some ''A cat.''))) rgb_image []) =
     Inr (Some ''data:image/jpeg;base64,/9gDAQID/9k='')
   \<and> create (mock_env (reply (Some ''A cat.'')))
        (chat_request ''What is this?'' ''data:image/jpeg;base64,/9gDAQID/9k='')
       = Inr \<lparr>choices = [\<lparr>message = \<lparr>content = Some ''A cat.''\<rparr>\<rparr>]\<rparr>
   \<and> analyze_image_and_text (mock_env (reply (Some ''A cat.''))) ''Bob'' ''What is this?''
        rgb_image [] =
         ([Log INFO (activity_line ''Bob'' ''API call'' True),
           Call \<lparr>model = ''llama-3.2-11b-vision-preview'',
                 messages = [\<lparr>role = ''user'',
                              parts = [Text ''What is this?'',
                                       Image_url ''data:image/jpeg;base64,/9gDAQID/9k='']\<rparr>],
                 temperature = 1, max_tokens = 1024, top_p = 1, stream = False, stop = None\<rparr>,
           Log INFO (activity_line ''Bob'' ''Image analysis'' True)],
          Inr (Some ''A cat.''))"
proof -
  have h1: "snd (encode_image_to_base64 (mock_env (reply (Some ''A cat.''))) rgb_image []) =
              Inr (Some ''data:image/jpeg;base64,/9gDAQID/9k='')"
    by (rule encode_rgb_mock_snd)
  have h2: "create (mock_env (reply (Some ''A cat.'')))
              (chat_request ''What is this?'' ''data:image/jpeg;base64,/9gDAQID/9k='')
            = Inr \<lparr>choices = [\<lparr>message = \<lparr>content = Some ''A cat.''\<rparr>\<rparr>]\<rparr>"
    by (simp add: mock_env_def reply_def)
  have h3: "choices \<lparr>choices = [\<lparr>message = \<lparr>content = Some ''A cat.''\<rparr>\<rparr>]\<rparr>
            = \<lparr>message = \<lparr>content = Some ''A cat.''\<rparr>\<rparr> # []"
    by simp
  from analyze_success [OF h1 h2 h3, of "''Bob''"] h1 h2 show ?thesis by simp
qed

subsection \<open>C8: Bob's session\<close>

text \<open>
  C8, as amended. Bob logs in, uploads a file that opens as an image (the stand-in for a
  valid JPEG under the doubles), leaves the prompt empty and clicks
  "Analyze"; the client answers with the one choice "A red apple on a table.". The page
  then shows that text, one request went out (with the default prompt), and the activity
  entries are, in order: Login/success, Image upload/success once for every run of the
  script that shows the uploaded file (two runs here: the one after the upload and the
  one after the click), API call/success, Image analysis/success.
\<close>

theorem bob_session_entries:
  "Write ''A red apple on a table.''
     \<in> set (page (interact (mock_env (reply (Some ''A red apple on a table.''))) bob_session fresh))
   \<and> activity_entries (world (interact (mock_env (reply (Some ''A red apple on a table.'')))
                                bob_session fresh))
     = [activity_line ''Bob'' ''Login'' True, activity_line ''Bob'' ''Image upload'' True,
        activity_line ''Bob'' ''Image upload'' True, activity_line ''Bob'' ''API call'' True,
        activity_line ''Bob'' ''Image analysis'' True]
   \<and> calls_of (world (interact (mock_env (reply (Some ''A red apple on a table.'')))
                        bob_session fresh))
     = [chat_request ''Describe the image'' ''data:image/jpeg;base64,/9gDyB4e/9k='']"
  by (simp add: bob_session_run)

text \<open>
  C8 as stated fails: the entries of the session are not the three of the claim, since
  every run that shows the uploaded file logs "Image upload" (line 142).
\<close>

theorem bob_three_entries_counterexample:
  "activity_entries (world (interact (mock_env (reply (Some ''A red apple on a table.'')))
                              bob_session fresh))
   \<noteq> [activity_line ''Bob'' ''Login'' True, activity_line ''Bob'' ''API call'' True,
       activity_line ''Bob'' ''Image analysis'' True]"
  by (simp add: bob_session_run)

subsection \<open>C9: the gate comes before the analyzer\<close>

text \<open>
  C9. In every state in which \<open>user_name\<close> is absent (the key missing or bound to \<open>None\<close>),
  whatever the widgets return, a run of the script renders the name gate only (style
  block, title, name field, "Enter" button, and the warning after an empty name), adds
  at most one "Login" entry, sends no request, and ends there; the session holds a name
  afterwards only when the run ended in a rerun.
\<close>

theorem gate_blocks_analyzer:
  assumes "current_user ss = None"
  shows "page (main env inp ss w) \<in>
           {[Markdown_style, Title welcome_title, Text_input ''Please enter your name:'',
             Button ''Enter''],
            [Markdown_style, Title welcome_title, Text_input ''Please enter your name:'',
             Button ''Enter'', Warning ''Please enter your name to continue.'']}
         \<and> world (main env inp ss w) \<in>
           {w, w @ [Log INFO (activity_line (name_entered inp) ''Login'' True)],
            w @ [Log INFO (activity_line ''anonymous'' ''Login'' False)]}
         \<and> calls_of (world (main env inp ss w)) = calls_of w
         \<and> (current_user (session (main env inp ss w)) = None
              \<or> control (main env inp ss w) = Rerun)"
  using assms
  by (simp add: main_def Let_def log_activity_def current_user_def calls_of_append)

theorem gate_blocks_analyzer_witness:
  "current_user \<lparr>user_name = None\<rparr> = None
   \<and> page (main (mock_env (reply (Some ''A cat.'')))
             (idle\<lparr>uploaded_file := Some jpeg_file, analyze_clicked := True\<rparr>)
             \<lparr>user_name = None\<rparr> [])
       = [Markdown_style, Title welcome_title, Text_input ''Please enter your name:'',
          Button ''Enter'']
   \<and> world (main (mock_env (reply (Some ''A cat.'')))
             (idle\<lparr>uploaded_file := Some jpeg_file, analyze_clicked := True\<rparr>)
             \<lparr>user_name = None\<rparr> []) = []"
proof -
  have h: "current_user \<lparr>user_name = None\<rparr> = None" by (simp add: current_user_def)
  from gate_blocks_analyzer [OF h, of "mock_env (reply (Some ''A cat.''))"
      "idle\<lparr>uploaded_file := Some jpeg_file, analyze_clicked := True\<rparr>" "[]"] h
  show ?thesis by (simp add: main_def Let_def idle_def)
qed

subsection \<open>C10: a completion with empty content\<close>

text \<open>
  C10. When the uploaded image opens, is shown and is encoded, and the first choice of
  the completion has the content \<open>None\<close> or the empty string, the analyzer logs a
  successful "Image analysis" entry and
  returns that content; \<open>main\<close> then finds the value false and shows the generic error
  banner. The page is the very page of a run in which the client raised, while the trace
  ends in the successful entry.
\<close>

theorem empty_content_shows_error:
  assumes "current_user ss = Some name"
    and "uploaded_file inp = Some file"
    and "image_open env file = Inr img"
    and "analyze_clicked inp"
    and "\<not> logout_clicked inp"
    and "snd (encode_image_to_base64 env img []) = Inr (Some uri)"
    and "create env (chat_request (if text_entered inp = [] then ''Describe the image''
                                   else text_entered inp) uri) = Inr completion"
    and "choices completion = c # cs"
    and "content (message c) = None \<or> content (message c) = Some []"
    and "st_image env img = Inr ()"
  shows "analyze_image_and_text env name
           (if text_entered inp = [] then ''Describe the image'' else text_entered inp) img w =
           (w @ [Log INFO (activity_line name ''API call'' True),
                 Call (chat_request (if text_entered inp = [] then ''Describe the image''
                                     else text_entered inp) uri),
                 Log INFO (activity_line name ''Image analysis'' True)],
            Inr (content (message c)))
         \<and> main env inp ss w =
           \<lparr>session = ss\<lparr>user_name := Some (Some name)\<rparr>,
            world = w @ [Log INFO (activity_line name ''Image upload'' True),
                         Log INFO (activity_line name ''API call'' True),
                         Call (chat_request (if text_entered inp = [] then ''Describe the image''
                                             else text_entered inp) uri),
                         Log INFO (activity_line name ''Image analysis'' True)],
            page = [Markdown_style, Title (hello_title name), Subheader ''Image Analyzer'',
                    Text_input ''Enter text'', File_uploader ''Choose an image...'',
                    Image_view img ''Uploaded Image'', Button ''Analyze'',
                    Spinner ''Analyzing the image...'', Error analysis_error_text,
                    Sidebar_button ''Logout'', Markdown_footer],
            control = Finished\<rparr>
         \<and> page (main env inp ss w) = page (main (env\<lparr>create := \<lambda>req. Inl e\<rparr>) inp ss w)"
proof -
  let ?t = "if text_entered inp = [] then ''Describe the image'' else text_entered inp"
  let ?w1 = "w @ [Log INFO (activity_line name ''Image upload'' True)]"
  let ?env' = "env\<lparr>create := \<lambda>req. Inl e\<rparr>"
  have enc0: "snd (encode_image_to_base64 env img w) = Inr (Some uri)"
    using assms(6) encode_result_any_world [of env img w] by simp
  have enc: "snd (encode_image_to_base64 env img ?w1) = Inr (Some uri)"
    using assms(6) encode_result_any_world [of env img ?w1] by simp
  then have enc': "snd (encode_image_to_base64 ?env' img ?w1) = Inr (Some uri)"
    by (simp add: encode_ignores_client)
  have direct: "analyze_image_and_text env name ?t img w =
              (w @ [Log INFO (activity_line name ''API call'' True), Call (chat_request ?t uri),
                    Log INFO (activity_line name ''Image analysis'' True)],
               Inr (content (message c)))"
    using analyze_encoded [OF enc0, of name ?t] assms(7,8) by simp
  have ok: "analyze_image_and_text env name ?t img ?w1 =
              (?w1 @ [Log INFO (activity_line name ''API call'' True), Call (chat_request ?t uri),
                      Log INFO (activity_line name ''Image analysis'' True)],
               Inr (content (message c)))"
    using analyze_encoded [OF enc, of name ?t] assms(7,8) by simp
  have bad: "analyze_image_and_text ?env' name ?t img ?w1 =
              (?w1 @ [Log INFO (activity_line name ''API call'' True), Call (chat_request ?t uri),
                      Log INFO (activity_line name ''Image analysis'' False)], Inr None)"
    using analyze_encoded [OF enc', of name ?t] by simp
  have up: "process_upload env name ?t file True (w, pg) =
              (?w1 @ [Log INFO (activity_line name ''API call'' True), Call (chat_request ?t uri),
                      Log INFO (activity_line name ''Image analysis'' True)],
               pg @ [Image_view img ''Uploaded Image'', Button ''Analyze'',
                     Spinner ''Analyzing the image...'', Error analysis_error_text])" for pg
    using process_upload_analyzed [OF assms(3) assms(10) ok, of pg] assms(9) by auto
  have open': "image_open ?env' file = Inr img"
    using assms(3) by simp
  have shown': "st_image ?env' img = Inr ()"
    using assms(10) by simp
  have up': "snd (process_upload ?env' name ?t file True (w, pg)) =
               pg @ [Image_view img ''Uploaded Image'', Button ''Analyze'',
                     Spinner ''Analyzing the image...'', Error analysis_error_text]" for pg
    using process_upload_analyzed [OF open' shown' bad, of pg] by simp
  have first: "main env inp ss w =
           \<lparr>session = ss\<lparr>user_name := Some (Some name)\<rparr>,
            world = w @ [Log INFO (activity_line name ''Image upload'' True),
                         Log INFO (activity_line name ''API call'' True),
                         Call (chat_request ?t uri),
                         Log INFO (activity_line name ''Image analysis'' True)],
            page = [Markdown_style, Title (hello_title name), Subheader ''Image Analyzer'',
                    Text_input ''Enter text'', File_uploader ''Choose an image...'',
                    Image_view img ''Uploaded Image'', Button ''Analyze'',
                    Spinner ''Analyzing the image...'', Error analysis_error_text,
                    Sidebar_button ''Logout'', Markdown_footer],
            control = Finished\<rparr>"
    using assms(1,2,4,5) by (simp add: main_def Let_def up)
  have second: "page (main ?env' inp ss w) =
                   [Markdown_style, Title (hello_title name), Subheader ''Image Analyzer'',
                    Text_input ''Enter text'', File_uploader ''Choose an image...'',
                    Image_view img ''Uploaded Image'', Button ''Analyze'',
                    Spinner ''Analyzing the image...'', Error analysis_error_text,
                    Sidebar_button ''Logout'', Markdown_footer]"
    using assms(1,2,4,5) by (simp add: main_def Let_def up')
  from direct first second show ?thesis by simp
qed

theorem empty_content_shows_error_witness:
  "current_user \<lparr>user_name = Some (Some ''Bob'')\<rparr> = Some ''Bob''
   \<and> st_image (mock_env (reply (Some []))) \<lparr>mode = ''RGB'', raw = [200, 30, 30]\<rparr> = Inr ()
   \<and> image_open (mock_env (reply (Some []))) jpeg_file = Inr \<lparr>mode = ''RGB'', raw = [200, 30, 30]\<rparr>
   \<and> snd (encode_image_to_base64 (mock_env (reply (Some []))) \<lparr>mode = ''RGB'', raw = [200, 30, 30]\<rparr> [])
       = Inr (Some ''data:image/jpeg;base64,/9gDyB4e/9k='')
   \<and> create (mock_env (reply (Some [])))
        (chat_request ''Describe the image'' ''data:image/jpeg;base64,/9gDyB4e/9k='')
       = Inr \<lparr>choices = [\<lparr>message = \<lparr>content = Some []\<rparr>\<rparr>]\<rparr>
   \<and> main (mock_env (reply (Some [])))
        (idle\<lparr>uploaded_file := Some jpeg_file, analyze_clicked := True\<rparr>)
        \<lparr>user_name = Some (Some ''Bob'')\<rparr> [] =
        \<lparr>session = \<lparr>user_name = Some (Some ''Bob'')\<rparr>,
         world = [Log INFO (activity_line ''Bob'' ''Image upload'' True),
                  Log INFO (activity_line ''Bob'' ''API call'' True),
                  Call (chat_request ''Describe the image'' ''data:image/jpeg;base64,/9gDyB4e/9k=''),
                  Log INFO (activity_line ''Bob'' ''Image analysis'' True)],
         page = [Markdown_style, Title (hello_title ''Bob''), Subheader ''Image Analyzer'',
                 Text_input ''Enter text'', File_uploader ''Choose an image...'',
                 Image_view \<lparr>mode = ''RGB'', raw = [200, 30, 30]\<rparr> ''Uploaded Image'',
                 Button ''Analyze'', Spinner ''Analyzing the image...'',
                 Error analysis_error_text, Sidebar_button ''Logout'', Markdown_footer],
         control = Finished\<rparr>"
proof -
  let ?env = "mock_env (reply (Some []))"
  let ?inp = "idle\<lparr>uploaded_file := Some jpeg_file, analyze_clicked := True\<rparr>"
  let ?ss = "\<lparr>user_name = Some (Some ''Bob'')\<rparr>"
  let ?img = "\<lparr>mode = ''RGB'', raw = [200, 30, 30]\<rparr>"
  let ?c = "\<lparr>message = \<lparr>content = Some []\<rparr>\<rparr>"
  have h1: "current_user ?ss = Some ''Bob''" by (simp add: current_user_def)
  have h2: "uploaded_file ?inp = Some jpeg_file" by simp
  have h3: "image_open ?env jpeg_file = Inr ?img" by (rule image_open_mock_jpeg)
  have h4: "analyze_clicked ?inp" by simp
  have h5: "\<not> logout_clicked ?inp" by (simp add: idle_def)
  have h6: "snd (encode_image_to_base64 ?env ?img []) = Inr (Some ''data:image/jpeg;base64,/9gDyB4e/9k='')"
    by (simp add: encode_jpeg_mock)
  have t: "text_entered ?inp = []" by (simp add: idle_def)
  have h7: "create ?env (chat_request (if text_entered ?inp = [] then ''Describe the image''
                                       else text_entered ?inp) ''data:image/jpeg;base64,/9gDyB4e/9k='')
            = Inr \<lparr>choices = [?c]\<rparr>"
    by (simp add: create_mock reply_def)
  have h8: "choices \<lparr>choices = [?c]\<rparr> = ?c # []" by simp
  have h9: "content (message ?c) = None \<or> content (message ?c) = Some []" by simp
  have h10: "st_image ?env ?img = Inr ()" by (rule st_image_mock)
  from empty_content_shows_error [OF h1 h2 h3 h4 h5 h6 h7 h8 h9 h10, of "[]"] h1 h3 h6 h7 h10 t
  show ?thesis by simp
qed

end
